theory Spec2Isabelle
  imports Complex_Main
begin

section \<open>The notebook's training code over the framework's calls\<close>

text \<open>
  The notebook \<^verbatim>\<open>04_Optimizer_Loss.ipynb\<close> trains a linear regression by calling a
  deep-learning framework: tensors with \<^verbatim>\<open>+\<close>, \<^verbatim>\<open>*\<close>, \<^verbatim>\<open>-\<close>, \<^verbatim>\<open>**\<close>,
  \<^verbatim>\<open>.mean()\<close>, \<^verbatim>\<open>.backward()\<close> and \<^verbatim>\<open>.item()\<close>, module objects with
  \<^verbatim>\<open>.train()\<close> and \<^verbatim>\<open>__call__\<close>, a loss callable, and an optimizer object with
  \<^verbatim>\<open>.step()\<close> and \<^verbatim>\<open>.zero_grad()\<close>. The framework's code is not part of the
  notebook, so every framework call is a parameter of the model below: \<open>'w\<close> is the
  state the framework keeps (parameter values, accumulated gradients, module flags),
  \<open>'t\<close> is a tensor as the Python code holds it, \<open>'n\<close> is a Python number. A call that
  mutates objects takes the state and returns the new one; a call that only computes a
  new tensor reads the state. Calls are taken to return: a framework call that raises
  aborts the cell, and nothing below speaks about that.
\<close>

record ('w, 't, 'n) torch =
  t_add :: "'t \<Rightarrow> 't \<Rightarrow> 'w \<Rightarrow> 't"
  t_mul :: "'t \<Rightarrow> 't \<Rightarrow> 'w \<Rightarrow> 't"
  t_sub :: "'t \<Rightarrow> 't \<Rightarrow> 'w \<Rightarrow> 't"
  t_pow :: "'t \<Rightarrow> nat \<Rightarrow> 'w \<Rightarrow> 't"
  t_mean :: "'t \<Rightarrow> 'w \<Rightarrow> 't"
  t_backward :: "'t \<Rightarrow> 'w \<Rightarrow> 'w"
  t_item :: "'t \<Rightarrow> 'w \<Rightarrow> 'n"

record ('w, 't) module =
  m_train :: "'w \<Rightarrow> 'w"
  m_call :: "'t \<Rightarrow> 'w \<Rightarrow> 't \<times> 'w"

record 'w optimizer =
  o_step :: "'w \<Rightarrow> 'w"
  o_zero_grad :: "'w \<Rightarrow> 'w"

type_synonym ('w, 't) loss_fn = "'t \<Rightarrow> 't \<Rightarrow> 'w \<Rightarrow> 't \<times> 'w"

definition n_epochs :: nat where
  "n_epochs = 1000"

subsection \<open>\<^verbatim>\<open>make_train_step\<close> and the loop that calls it\<close>

text \<open>
  \<^verbatim>\<open>make_train_step(model, loss_fn, optimizer)\<close> returns the closure
  \<^verbatim>\<open>train_step(x, y)\<close>; the closure is the function of \<open>x\<close>, \<open>y\<close> and the state that
  remains when the first arguments are given.
\<close>

definition make_train_step ::
  "('w, 't, 'n) torch \<Rightarrow> ('w, 't) module \<Rightarrow> ('w, 't) loss_fn \<Rightarrow> 'w optimizer
    \<Rightarrow> 't \<Rightarrow> 't \<Rightarrow> 'w \<Rightarrow> 'n \<times> 'w" where
  "make_train_step T model loss_fn optimizer = (\<lambda>x y w.
     let w1 = m_train model w;
         (yhat, w2) = m_call model x w1;
         (loss, w3) = loss_fn y yhat w2;
         w4 = t_backward T loss w3;
         w5 = o_step optimizer w4;
         w6 = o_zero_grad optimizer w5
     in (t_item T loss w6, w6))"

text \<open>
  \<^verbatim>\<open>for epoch in range(n_epochs): loss = train_step(x, y); losses.append(loss)\<close>,
  with the list \<open>losses\<close> and the state threaded through the iterations.
\<close>

fun train_step_loop ::
  "('t \<Rightarrow> 't \<Rightarrow> 'w \<Rightarrow> 'n \<times> 'w) \<Rightarrow> 't \<Rightarrow> 't \<Rightarrow> nat \<Rightarrow> 'n list \<Rightarrow> 'w \<Rightarrow> 'n list \<times> 'w" where
  "train_step_loop train_step x y 0 losses w = (losses, w)"
| "train_step_loop train_step x y (Suc n) losses w =
     (let (loss, w') = train_step x y w
      in train_step_loop train_step x y n (losses @ [loss]) w')"

subsection \<open>The inline loop over a model object\<close>

text \<open>One iteration of the loop of the cell that introduces the model class.\<close>

definition inline_epoch ::
  "('w, 't, 'n) torch \<Rightarrow> ('w, 't) module \<Rightarrow> ('w, 't) loss_fn \<Rightarrow> 'w optimizer
    \<Rightarrow> 't \<Rightarrow> 't \<Rightarrow> 'w \<Rightarrow> 'w" where
  "inline_epoch T model loss_fn optimizer x y w =
     (let w1 = m_train model w;
          (yhat, w2) = m_call model x w1;
          (loss, w3) = loss_fn y yhat w2;
          w4 = t_backward T loss w3;
          w5 = o_step optimizer w4
      in o_zero_grad optimizer w5)"

fun inline_loop ::
  "('w, 't, 'n) torch \<Rightarrow> ('w, 't) module \<Rightarrow> ('w, 't) loss_fn \<Rightarrow> 'w optimizer
    \<Rightarrow> 't \<Rightarrow> 't \<Rightarrow> nat \<Rightarrow> 'w \<Rightarrow> 'w" where
  "inline_loop T model loss_fn optimizer x y 0 w = w"
| "inline_loop T model loss_fn optimizer x y (Suc n) w =
     inline_loop T model loss_fn optimizer x y n
       (inline_epoch T model loss_fn optimizer x y w)"

subsection \<open>The loops over the raw parameter tensors \<open>a\<close> and \<open>b\<close>\<close>

text \<open>
  One iteration of the first loop: the prediction and the loss are written out with
  tensor arithmetic, the update and the zeroing go through the optimizer. The iteration
  leaves the Python variable \<open>loss\<close> bound, so the model returns it with the state.
\<close>

definition manual_loss_epoch ::
  "('w, 't, 'n) torch \<Rightarrow> 'w optimizer \<Rightarrow> 't \<Rightarrow> 't \<Rightarrow> 't \<Rightarrow> 't \<Rightarrow> 'w \<Rightarrow> 't \<times> 'w" where
  "manual_loss_epoch T optimizer a b x_train_tensor y_train_tensor w =
     (let yhat = t_add T a (t_mul T b x_train_tensor w) w;
          error = t_sub T y_train_tensor yhat w;
          loss = t_mean T (t_pow T error 2 w) w;
          w1 = t_backward T loss w;
          w2 = o_step optimizer w1;
          w3 = o_zero_grad optimizer w2
      in (loss, w3))"

fun manual_loss_loop ::
  "('w, 't, 'n) torch \<Rightarrow> 'w optimizer \<Rightarrow> 't \<Rightarrow> 't \<Rightarrow> 't \<Rightarrow> 't \<Rightarrow> nat \<Rightarrow> 'w \<Rightarrow> 'w" where
  "manual_loss_loop T optimizer a b x y 0 w = w"
| "manual_loss_loop T optimizer a b x y (Suc n) w =
     manual_loss_loop T optimizer a b x y n (snd (manual_loss_epoch T optimizer a b x y w))"

text \<open>One iteration of the second loop: the loss comes from the loss callable.\<close>

definition mse_loss_epoch ::
  "('w, 't, 'n) torch \<Rightarrow> ('w, 't) loss_fn \<Rightarrow> 'w optimizer \<Rightarrow> 't \<Rightarrow> 't \<Rightarrow> 't \<Rightarrow> 't \<Rightarrow> 'w
    \<Rightarrow> 't \<times> 'w" where
  "mse_loss_epoch T loss_fn optimizer a b x_train_tensor y_train_tensor w =
     (let yhat = t_add T a (t_mul T b x_train_tensor w) w;
          (loss, w0) = loss_fn y_train_tensor yhat w;
          w1 = t_backward T loss w0;
          w2 = o_step optimizer w1;
          w3 = o_zero_grad optimizer w2
      in (loss, w3))"

fun mse_loss_loop ::
  "('w, 't, 'n) torch \<Rightarrow> ('w, 't) loss_fn \<Rightarrow> 'w optimizer \<Rightarrow> 't \<Rightarrow> 't \<Rightarrow> 't \<Rightarrow> 't \<Rightarrow> nat
    \<Rightarrow> 'w \<Rightarrow> 'w" where
  "mse_loss_loop T loss_fn optimizer a b x y 0 w = w"
| "mse_loss_loop T loss_fn optimizer a b x y (Suc n) w =
     mse_loss_loop T loss_fn optimizer a b x y n
       (snd (mse_loss_epoch T loss_fn optimizer a b x y w))"

subsection \<open>The model classes\<close>

text \<open>
  \<^verbatim>\<open>ManualLinearRegression\<close> holds the two parameter tensors \<^verbatim>\<open>self.a\<close> and
  \<^verbatim>\<open>self.b\<close>; \<^verbatim>\<open>forward\<close> is \<^verbatim>\<open>self.a + self.b * x\<close>. Calling the object goes
  through the framework's \<^verbatim>\<open>__call__\<close> to \<^verbatim>\<open>forward\<close>; \<^verbatim>\<open>train()\<close> is inherited
  from the framework's module class and is a parameter here.
\<close>

record 't ManualLinearRegression =
  self_a :: 't
  self_b :: 't

definition forward :: "('w, 't, 'n) torch \<Rightarrow> 't ManualLinearRegression \<Rightarrow> 't \<Rightarrow> 'w \<Rightarrow> 't" where
  "forward T self x w = t_add T (self_a self) (t_mul T (self_b self) x w) w"

definition ManualLinearRegression_module ::
  "('w, 't, 'n) torch \<Rightarrow> ('w \<Rightarrow> 'w) \<Rightarrow> 't ManualLinearRegression \<Rightarrow> ('w, 't) module" where
  "ManualLinearRegression_module T module_train self =
     \<lparr>m_train = module_train, m_call = (\<lambda>x w. (forward T self x w, w))\<rparr>"

text \<open>
  \<^verbatim>\<open>LayerLinearRegression\<close> holds one nested module \<^verbatim>\<open>self.linear\<close>; \<^verbatim>\<open>forward\<close>
  calls it.
\<close>

definition LayerLinearRegression_module ::
  "('w \<Rightarrow> 'w) \<Rightarrow> ('w, 't) module \<Rightarrow> ('w, 't) module" where
  "LayerLinearRegression_module module_train self_linear =
     \<lparr>m_train = module_train, m_call = (\<lambda>x w. m_call self_linear x w)\<rparr>"

subsection \<open>Recording the framework calls\<close>

text \<open>
  To speak about which framework calls a piece of code makes, and in which order, every
  object is wrapped so that each call appends an event to a log kept beside the state and
  then does what the wrapped object does.
\<close>

datatype 't event =
    ModelTrain
  | ModelCall 't 't
  | LossFn 't 't 't
  | Backward 't
  | OptimizerStep
  | OptimizerZeroGrad

definition traced_torch :: "('w, 't, 'n) torch \<Rightarrow> ('t event list \<times> 'w, 't, 'n) torch" where
  "traced_torch T =
     \<lparr>t_add = (\<lambda>s t lw. t_add T s t (snd lw)),
      t_mul = (\<lambda>s t lw. t_mul T s t (snd lw)),
      t_sub = (\<lambda>s t lw. t_sub T s t (snd lw)),
      t_pow = (\<lambda>s k lw. t_pow T s k (snd lw)),
      t_mean = (\<lambda>s lw. t_mean T s (snd lw)),
      t_backward = (\<lambda>t lw. (fst lw @ [Backward t], t_backward T t (snd lw))),
      t_item = (\<lambda>t lw. t_item T t (snd lw))\<rparr>"

definition traced_module :: "('w, 't) module \<Rightarrow> ('t event list \<times> 'w, 't) module" where
  "traced_module model =
     \<lparr>m_train = (\<lambda>lw. (fst lw @ [ModelTrain], m_train model (snd lw))),
      m_call = (\<lambda>x lw. let (yhat, w') = m_call model x (snd lw)
                        in (yhat, (fst lw @ [ModelCall x yhat], w')))\<rparr>"

definition traced_loss_fn :: "('w, 't) loss_fn \<Rightarrow> ('t event list \<times> 'w, 't) loss_fn" where
  "traced_loss_fn loss_fn = (\<lambda>y yhat lw.
     let (loss, w') = loss_fn y yhat (snd lw)
     in (loss, (fst lw @ [LossFn y yhat loss], w')))"

definition traced_optimizer :: "'w optimizer \<Rightarrow> ('t event list \<times> 'w) optimizer" where
  "traced_optimizer optimizer =
     \<lparr>o_step = (\<lambda>lw. (fst lw @ [OptimizerStep], o_step optimizer (snd lw))),
      o_zero_grad = (\<lambda>lw. (fst lw @ [OptimizerZeroGrad], o_zero_grad optimizer (snd lw)))\<rparr>"

section \<open>Parameters, gradients and the optimizer step\<close>

text \<open>
  Parameters are tensors the framework keeps by reference: each has a value and an
  accumulated gradient, absent until the first backward pass reaches it. An address
  stands for the Python object; two names for one object share the address. The numbers
  are of any type \<open>'a\<close> with the arithmetic symbols and no law assumed about them, so
  that nothing below depends on how the framework rounds.
\<close>

type_synonym addr = nat

record 'a world =
  data :: "addr \<Rightarrow> 'a"
  grad :: "addr \<Rightarrow> 'a option"
  training :: "nat \<Rightarrow> bool"

text \<open>
  Modelled from the spec: \<^verbatim>\<open>optimizer.step()\<close> is a call into the framework, whose
  code is not part of the repository. The glossary has it as one application of an
  update rule to a set of parameters using their accumulated gradients: the rule takes a
  parameter's value and its accumulated gradient to the new value, and the step goes
  through the parameters the optimizer was constructed with. A parameter that has no
  accumulated gradient yet has nothing to be updated with and is passed over.
\<close>

fun optimizer_step :: "('a \<Rightarrow> 'a \<Rightarrow> 'a) \<Rightarrow> addr list \<Rightarrow> 'a world \<Rightarrow> 'a world" where
  "optimizer_step rule [] w = w"
| "optimizer_step rule (p # ps) w =
     optimizer_step rule ps
       (case grad w p of
          None \<Rightarrow> w
        | Some g \<Rightarrow> w\<lparr>data := (data w)(p := rule (data w p) g)\<rparr>)"

section \<open>A reference instance of the framework calls\<close>

text \<open>
  The definitions of this section are not code of the notebook. They give the framework
  calls the notebook makes a small executable meaning, after the framework's
  documentation, so that the notebook's cells can be run on concrete data and the
  hypotheses of the theorems about arbitrary framework objects can be met. A tensor is
  either a parameter, read from the state when it is used, or a computed tensor: its
  elements together with the function that \<^verbatim>\<open>backward()\<close> runs, from the gradient
  arriving at the tensor to the gradients this contributes to each parameter. Shapes
  are flat: a parameter has one element, and a one-element tensor broadcasts against
  any other. Where the framework raises on two tensors of different lengths, neither
  of them 1, the reference instance pairs the elements up to the shorter length; the
  runs on concrete data below use tensors of one length.
\<close>

datatype 'a tensor = Parameter addr | Tensor "'a list" "'a list \<Rightarrow> (addr \<times> 'a) list"

fun tsum :: "('a::{plus,zero}) list \<Rightarrow> 'a" where
  "tsum [] = 0"
| "tsum (v # vs) = foldl (+) v vs"

definition count :: "nat \<Rightarrow> 'a::{plus,zero,one}" where
  "count n = tsum (replicate n 1)"

fun vals :: "'a world \<Rightarrow> 'a tensor \<Rightarrow> 'a list" where
  "vals w (Parameter p) = [data w p]"
| "vals w (Tensor v f) = v"

fun vjp :: "('a::{plus,zero}) tensor \<Rightarrow> 'a list \<Rightarrow> (addr \<times> 'a) list" where
  "vjp (Parameter p) g = [(p, tsum g)]"
| "vjp (Tensor v f) g = f g"

fun bcast :: "('a \<Rightarrow> 'a \<Rightarrow> 'a) \<Rightarrow> 'a list \<Rightarrow> 'a list \<Rightarrow> 'a list" where
  "bcast f [u] vs = map (f u) vs"
| "bcast f us [v] = map (\<lambda>u. f u v) us"
| "bcast f us vs = map2 f us vs"

definition unbroadcast :: "'a list \<Rightarrow> ('a::{plus,zero}) list \<Rightarrow> 'a list" where
  "unbroadcast v g = (if length v = 1 then [tsum g] else g)"

definition ref_add :: "('a::{plus,zero}) tensor \<Rightarrow> 'a tensor \<Rightarrow> 'a world \<Rightarrow> 'a tensor" where
  "ref_add s t w =
     Tensor (bcast (+) (vals w s) (vals w t))
       (\<lambda>g. vjp s (unbroadcast (vals w s) g) @ vjp t (unbroadcast (vals w t) g))"

definition ref_sub ::
  "('a::{plus,minus,uminus,zero}) tensor \<Rightarrow> 'a tensor \<Rightarrow> 'a world \<Rightarrow> 'a tensor" where
  "ref_sub s t w =
     Tensor (bcast (-) (vals w s) (vals w t))
       (\<lambda>g. vjp s (unbroadcast (vals w s) g)
            @ vjp t (unbroadcast (vals w t) (map uminus g)))"

definition ref_mul :: "('a::{plus,times,zero}) tensor \<Rightarrow> 'a tensor \<Rightarrow> 'a world \<Rightarrow> 'a tensor" where
  "ref_mul s t w =
     Tensor (bcast (*) (vals w s) (vals w t))
       (\<lambda>g. vjp s (unbroadcast (vals w s) (bcast (*) g (vals w t)))
            @ vjp t (unbroadcast (vals w t) (bcast (*) g (vals w s))))"

definition ref_pow ::
  "('a::{plus,times,zero,one,power}) tensor \<Rightarrow> nat \<Rightarrow> 'a world \<Rightarrow> 'a tensor" where
  "ref_pow s k w =
     Tensor (map (\<lambda>e. e ^ k) (vals w s))
       (\<lambda>g. vjp s (bcast (*) g (map (\<lambda>e. count k * e ^ (k - 1)) (vals w s))))"

definition ref_mean :: "('a::{plus,zero,one,inverse}) tensor \<Rightarrow> 'a world \<Rightarrow> 'a tensor" where
  "ref_mean s w =
     Tensor [tsum (vals w s) / count (length (vals w s))]
       (\<lambda>g. vjp s (map (\<lambda>e. tsum g / count (length (vals w s))) (vals w s)))"

text \<open>
  \<^verbatim>\<open>backward()\<close> on a one-element tensor adds, for every parameter the tensor was
  computed from, the gradient to what the parameter has accumulated.
\<close>

definition accumulate :: "('a::plus) world \<Rightarrow> addr \<times> 'a \<Rightarrow> 'a world" where
  "accumulate w pg =
     w\<lparr>grad := (grad w)(fst pg \<mapsto>
          (case grad w (fst pg) of None \<Rightarrow> snd pg | Some g0 \<Rightarrow> g0 + snd pg))\<rparr>"

definition ref_backward :: "('a::{plus,zero,one}) tensor \<Rightarrow> 'a world \<Rightarrow> 'a world" where
  "ref_backward t w = foldl accumulate w (vjp t [1])"

text \<open>\<^verbatim>\<open>item()\<close> gives the number of a one-element tensor and raises on any other.\<close>

definition ref_item :: "'a tensor \<Rightarrow> 'a world \<Rightarrow> 'a option" where
  "ref_item t w = (case vals w t of [v] \<Rightarrow> Some v | _ \<Rightarrow> None)"

definition ref_torch ::
  "(('a::{plus,minus,uminus,times,inverse,zero,one,power}) world, 'a tensor, 'a option) torch"
  where
  "ref_torch =
     \<lparr>t_add = ref_add, t_mul = ref_mul, t_sub = ref_sub, t_pow = ref_pow,
      t_mean = ref_mean, t_backward = ref_backward, t_item = ref_item\<rparr>"

text \<open>\<^verbatim>\<open>nn.MSELoss(reduction='mean')\<close>, called as \<^verbatim>\<open>loss_fn(input, target)\<close>.\<close>

definition MSELoss ::
  "(('a::{plus,minus,uminus,times,inverse,zero,one,power}) world, 'a tensor) loss_fn" where
  "MSELoss input target w = (ref_mean (ref_pow (ref_sub input target w) 2 w) w, w)"

text \<open>
  \<^verbatim>\<open>optim.SGD(params, lr=lr)\<close> without momentum: the rule of the step is the update
  the notebook's first loop names as the one it replaces, \<^verbatim>\<open>a -= lr * a.grad\<close>;
  \<^verbatim>\<open>zero_grad()\<close> sets the accumulated gradient of each of the optimizer's
  parameters that has one to zero, as the framework did at the notebook's time.
\<close>

fun zero_grad :: "addr list \<Rightarrow> ('a::zero) world \<Rightarrow> 'a world" where
  "zero_grad [] w = w"
| "zero_grad (p # ps) w =
     zero_grad ps
       (case grad w p of
          None \<Rightarrow> w
        | Some g \<Rightarrow> w\<lparr>grad := (grad w)(p \<mapsto> 0)\<rparr>)"

definition SGD :: "addr list \<Rightarrow> 'a \<Rightarrow> ('a::{minus,times,zero}) world optimizer" where
  "SGD params lr =
     \<lparr>o_step = optimizer_step (\<lambda>p g. p - lr * g) params,
      o_zero_grad = zero_grad params\<rparr>"

text \<open>
  \<^verbatim>\<open>train()\<close> of a module sets the module's flag, a container sets those of its
  children too. \<^verbatim>\<open>nn.Linear(1, 1)\<close> has the parameters \<open>weight\<close> and \<open>bias\<close>;
  \<^verbatim>\<open>nn.Sequential\<close> feeds each layer's output to the next.
\<close>

definition module_train :: "nat \<Rightarrow> 'a world \<Rightarrow> 'a world" where
  "module_train mid w = w\<lparr>training := (training w)(mid := True)\<rparr>"

definition Linear ::
  "nat \<Rightarrow> addr \<Rightarrow> addr \<Rightarrow> (('a::{plus,times,zero}) world, 'a tensor) module" where
  "Linear mid weight bias =
     \<lparr>m_train = module_train mid,
      m_call = (\<lambda>x w. (ref_add (ref_mul x (Parameter weight) w) (Parameter bias) w, w))\<rparr>"

definition Sequential :: "nat \<Rightarrow> ('a world, 't) module list \<Rightarrow> ('a world, 't) module" where
  "Sequential mid layers =
     \<lparr>m_train = (\<lambda>w. fold m_train layers (module_train mid w)),
      m_call = (\<lambda>x w. fold (\<lambda>layer tw. m_call layer (fst tw) (snd tw)) layers (x, w))\<rparr>"

subsection \<open>The notebook's cells on the reference instance\<close>

text \<open>
  \<^verbatim>\<open>a = torch.randn(1, requires_grad=True, ...)\<close> and the same for \<open>b\<close>: two
  parameters with the drawn values \<open>a0\<close> and \<open>b0\<close> and no gradient yet.
\<close>

definition fresh_parameters :: "addr \<Rightarrow> addr \<Rightarrow> 'a \<Rightarrow> 'a \<Rightarrow> 'a world \<Rightarrow> 'a world" where
  "fresh_parameters a b a0 b0 w =
     w\<lparr>data := (data w)(a := a0, b := b0), grad := (grad w)(a := None, b := None)\<rparr>"

text \<open>A data tensor such as \<^verbatim>\<open>x_train_tensor\<close>: elements, and no parameter behind it.\<close>

definition data_tensor :: "'a list \<Rightarrow> 'a tensor" where
  "data_tensor v = Tensor v (\<lambda>g. [])"

text \<open>
  The cell with the manual loss and the cell with \<^verbatim>\<open>nn.MSELoss\<close>: the parameters are
  created, the optimizer is constructed over \<^verbatim>\<open>[a, b]\<close>, the loop runs. The result
  is the state after \<open>n\<close> epochs.
\<close>

definition manual_loss_cell ::
  "addr \<Rightarrow> addr \<Rightarrow> 'a \<Rightarrow> 'a \<Rightarrow> 'a \<Rightarrow> 'a list \<Rightarrow> 'a list \<Rightarrow> nat
    \<Rightarrow> ('a::{plus,minus,uminus,times,inverse,zero,one,power}) world \<Rightarrow> 'a world" where
  "manual_loss_cell a b a0 b0 lr xs ys n w =
     manual_loss_loop ref_torch (SGD [a, b] lr) (Parameter a) (Parameter b)
       (data_tensor xs) (data_tensor ys) n (fresh_parameters a b a0 b0 w)"

definition mse_loss_cell ::
  "addr \<Rightarrow> addr \<Rightarrow> 'a \<Rightarrow> 'a \<Rightarrow> 'a \<Rightarrow> 'a list \<Rightarrow> 'a list \<Rightarrow> nat
    \<Rightarrow> ('a::{plus,minus,uminus,times,inverse,zero,one,power}) world \<Rightarrow> 'a world" where
  "mse_loss_cell a b a0 b0 lr xs ys n w =
     mse_loss_loop ref_torch MSELoss (SGD [a, b] lr) (Parameter a) (Parameter b)
       (data_tensor xs) (data_tensor ys) n (fresh_parameters a b a0 b0 w)"

text \<open>
  The last cell as the notebook runs it. \<open>model\<close> is the \<^verbatim>\<open>nn.Sequential(nn.Linear(1, 1))\<close>
  of the cell before, with its weight and bias at the addresses 2 and 3; \<open>loss_fn\<close> and
  \<open>optimizer\<close> are still the objects of the cell that trained the
  \<^verbatim>\<open>ManualLinearRegression\<close>, so the optimizer holds that model's parameters, at the
  addresses 0 and 1. The state is the one those cells leave: the old model trained and its
  gradients zeroed, the new model as initialised. One training point stands for the data.
\<close>

definition last_cell_state :: "rat world" where
  "last_cell_state =
     \<lparr>data = (\<lambda>p. 0)(0 := 1, 1 := 2), grad = (\<lambda>p. None)(0 \<mapsto> 0, 1 \<mapsto> 0),
      training = (\<lambda>m. False)(0 := True)\<rparr>"

definition last_cell_train_step :: "rat tensor \<Rightarrow> rat tensor \<Rightarrow> rat world \<Rightarrow> rat option \<times> rat world"
  where
  "last_cell_train_step =
     make_train_step ref_torch (Sequential 1 [Linear 2 2 3]) MSELoss (SGD [0, 1] (1 / 10))"

text \<open>
  The loss tensor that epoch \<open>k\<close> of each of the two cells computes, counting from 0:
  the loss of one more iteration on the state after \<open>k\<close> epochs.
\<close>

definition manual_loss_cell_loss ::
  "addr \<Rightarrow> addr \<Rightarrow> 'a \<Rightarrow> 'a \<Rightarrow> 'a \<Rightarrow> 'a list \<Rightarrow> 'a list \<Rightarrow> nat
    \<Rightarrow> ('a::{plus,minus,uminus,times,inverse,zero,one,power}) world \<Rightarrow> 'a tensor" where
  "manual_loss_cell_loss a b a0 b0 lr xs ys k w =
     fst (manual_loss_epoch ref_torch (SGD [a, b] lr) (Parameter a) (Parameter b)
            (data_tensor xs) (data_tensor ys) (manual_loss_cell a b a0 b0 lr xs ys k w))"

definition mse_loss_cell_loss ::
  "addr \<Rightarrow> addr \<Rightarrow> 'a \<Rightarrow> 'a \<Rightarrow> 'a \<Rightarrow> 'a list \<Rightarrow> 'a list \<Rightarrow> nat
    \<Rightarrow> ('a::{plus,minus,uminus,times,inverse,zero,one,power}) world \<Rightarrow> 'a tensor" where
  "mse_loss_cell_loss a b a0 b0 lr xs ys k w =
     fst (mse_loss_epoch ref_torch MSELoss (SGD [a, b] lr) (Parameter a) (Parameter b)
            (data_tensor xs) (data_tensor ys) (mse_loss_cell a b a0 b0 lr xs ys k w))"

subsection \<open>Notions used in the statements\<close>

text \<open>
  A call \<open>f\<close> leaves an observation of the state alone when the observation reads
  the same before and after the call, from every state. Two states agree at a parameter
  when they hold the same value and the same accumulated gradient for it.
\<close>

definition leaves :: "('w \<Rightarrow> 'o) \<Rightarrow> ('w \<Rightarrow> 'w) \<Rightarrow> bool" where
  "leaves obs f = (\<forall>v. obs (f v) = obs v)"

definition agree_at :: "addr \<Rightarrow> 'a world \<Rightarrow> 'a world \<Rightarrow> bool" where
  "agree_at p w1 w2 = (data w1 p = data w2 p \<and> grad w1 p = grad w2 p)"

section \<open>What the reference calls read and write\<close>

lemma vals_data_tensor [simp]: "vals w (data_tensor v) = v"
  by (simp add: data_tensor_def)

lemma vals_ref_add [simp]: "vals w' (ref_add s t w) = bcast (+) (vals w s) (vals w t)"
  by (simp add: ref_add_def)

lemma vals_ref_sub [simp]: "vals w' (ref_sub s t w) = bcast (-) (vals w s) (vals w t)"
  by (simp add: ref_sub_def)

lemma vals_ref_mul [simp]: "vals w' (ref_mul s t w) = bcast (*) (vals w s) (vals w t)"
  by (simp add: ref_mul_def)

lemma vals_ref_pow [simp]: "vals w' (ref_pow s k w) = map (\<lambda>e. e ^ k) (vals w s)"
  by (simp add: ref_pow_def)

lemma vals_ref_mean [simp]:
  "vals w' (ref_mean s w) = [tsum (vals w s) / count (length (vals w s))]"
  by (simp add: ref_mean_def)

lemma vjp_data_tensor [simp]: "vjp (data_tensor v) g = []"
  by (simp add: data_tensor_def)

lemma vjp_ref_add [simp]:
  "vjp (ref_add s t w) g = vjp s (unbroadcast (vals w s) g) @ vjp t (unbroadcast (vals w t) g)"
  by (simp add: ref_add_def)

lemma vjp_ref_sub [simp]:
  "vjp (ref_sub s t w) g
     = vjp s (unbroadcast (vals w s) g) @ vjp t (unbroadcast (vals w t) (map uminus g))"
  by (simp add: ref_sub_def)

lemma vjp_ref_mul [simp]:
  "vjp (ref_mul s t w) g
     = vjp s (unbroadcast (vals w s) (bcast (*) g (vals w t)))
       @ vjp t (unbroadcast (vals w t) (bcast (*) g (vals w s)))"
  by (simp add: ref_mul_def)

lemma vjp_ref_pow [simp]:
  "vjp (ref_pow s k w) g
     = vjp s (bcast (*) g (map (\<lambda>e. count k * e ^ (k - 1)) (vals w s)))"
  by (simp add: ref_pow_def)

lemma vjp_ref_mean [simp]:
  "vjp (ref_mean s w) g
     = vjp s (map (\<lambda>e. tsum g / count (length (vals w s))) (vals w s))"
  by (simp add: ref_mean_def)

lemma accumulate_obs [simp]:
  "data (accumulate w pg) = data w"
  "training (accumulate w pg) = training w"
  "grad (accumulate w pg) p
     = (if p = fst pg
        then Some (case grad w p of None \<Rightarrow> snd pg | Some g0 \<Rightarrow> g0 + snd pg)
        else grad w p)"
  by (simp_all add: accumulate_def)

lemma foldl_accumulate_obs [simp]:
  "data (foldl accumulate w l) = data w"
  "training (foldl accumulate w l) = training w"
  by (induction l arbitrary: w) simp_all

lemma ref_backward_obs [simp]:
  "data (ref_backward t w) = data w"
  "training (ref_backward t w) = training w"
  by (simp_all add: ref_backward_def)

lemma optimizer_step_obs [simp]:
  "grad (optimizer_step rule ps w) = grad w"
  "training (optimizer_step rule ps w) = training w"
  by (induction ps arbitrary: w) (simp_all split: option.splits)

lemma optimizer_step_other:
  "p \<notin> set ps \<Longrightarrow> data (optimizer_step rule ps w) p = data w p"
  by (induction ps arbitrary: w) (auto split: option.splits)

lemma zero_grad_obs [simp]:
  "data (zero_grad ps w) = data w"
  "training (zero_grad ps w) = training w"
  by (induction ps arbitrary: w) (simp_all split: option.splits)

lemma zero_grad_grad:
  "grad (zero_grad ps w) p
     = (if p \<in> set ps then map_option (\<lambda>g. 0) (grad w p) else grad w p)"
  by (induction ps arbitrary: w) (auto split: option.splits)

lemma module_train_obs [simp]:
  "data (module_train mid w) = data w"
  "grad (module_train mid w) = grad w"
  by (simp_all add: module_train_def)

lemma count_simps [simp]: "count 0 = (0::'a::{plus,zero,one})" "count (Suc 0) = (1::'a::{plus,zero,one})"
  "count 2 = (1 + 1::'a::{plus,zero,one})"
  by (simp_all add: count_def numeral_2_eq_2)

lemma last_cell_model_call:
  "m_call (Sequential mid [Linear lid weight bias]) x w
     = (ref_add (ref_mul x (Parameter weight) w) (Parameter bias) w, w)"
  "m_train (Sequential mid [Linear lid weight bias]) w = module_train lid (module_train mid w)"
  by (simp_all add: Sequential_def Linear_def)

lemma bcast_same_length:
  assumes len: "length us = length vs"
  shows "bcast f us vs = map2 f us vs"
proof (cases us)
  case Nil
  then show ?thesis using len by simp
next
  case us: (Cons u us')
  then obtain v vs' where vs: "vs = v # vs'" and len': "length us' = length vs'"
    using len by (cases vs) simp_all
  show ?thesis
  proof (cases us')
    case Nil
    then show ?thesis using us vs len' by simp
  next
    case (Cons u2 us2)
    then obtain v2 vs2 where "vs' = v2 # vs2" using len' by (cases vs') simp_all
    then show ?thesis using us vs Cons by simp
  qed
qed

text \<open>
  The reference \<open>MSELoss\<close> is defined by the written-out expression, so on the reference
  instance the iterations of the two cells coincide by definition. This is a fact about
  the reference instance only: how the framework's own loss kernel rounds is not
  part of it.
\<close>

lemma mse_loss_epoch_ref:
  "mse_loss_epoch ref_torch MSELoss optimizer a b x y w
     = manual_loss_epoch ref_torch optimizer a b x y w"
  by (simp add: mse_loss_epoch_def manual_loss_epoch_def MSELoss_def ref_torch_def Let_def)

lemma mse_loss_loop_ref:
  "mse_loss_loop ref_torch MSELoss optimizer a b x y n w
     = manual_loss_loop ref_torch optimizer a b x y n w"
  by (induction n arbitrary: w) (simp_all add: mse_loss_epoch_ref)

section \<open>One call of \<^verbatim>\<open>train_step\<close>\<close>

text \<open>
  Claim C1. For every model, loss function and optimizer,
  \<^verbatim>\<open>make_train_step(model, loss_fn, optimizer)\<close> returns a \<^verbatim>\<open>train_step(x, y)\<close> that
  makes exactly these framework calls, once each and in this order: \<^verbatim>\<open>model.train()\<close>,
  the prediction \<^verbatim>\<open>yhat = model(x)\<close>, \<^verbatim>\<open>loss = loss_fn(y, yhat)\<close>,
  \<^verbatim>\<open>loss.backward()\<close> on that loss, \<^verbatim>\<open>optimizer.step()\<close>,
  \<^verbatim>\<open>optimizer.zero_grad()\<close>; it returns \<^verbatim>\<open>loss.item()\<close> of that same loss. Recording
  the calls changes neither the returned number nor the state reached.
\<close>

theorem make_train_step_cycle:
  "\<exists>yhat loss.
     make_train_step (traced_torch T) (traced_module model) (traced_loss_fn loss_fn)
         (traced_optimizer optimizer) x y (evs, w)
       = (t_item T loss (snd (make_train_step T model loss_fn optimizer x y w)),
          evs @ [ModelTrain, ModelCall x yhat, LossFn y yhat loss, Backward loss,
                 OptimizerStep, OptimizerZeroGrad],
          snd (make_train_step T model loss_fn optimizer x y w))
     \<and> fst (make_train_step T model loss_fn optimizer x y w)
       = t_item T loss (snd (make_train_step T model loss_fn optimizer x y w))"
proof -
  obtain yhat w2 where call: "m_call model x (m_train model w) = (yhat, w2)"
    by (cases "m_call model x (m_train model w)")
  obtain loss w3 where lf: "loss_fn y yhat w2 = (loss, w3)"
    by (cases "loss_fn y yhat w2")
  have "make_train_step (traced_torch T) (traced_module model) (traced_loss_fn loss_fn)
         (traced_optimizer optimizer) x y (evs, w)
       = (t_item T loss (snd (make_train_step T model loss_fn optimizer x y w)),
          evs @ [ModelTrain, ModelCall x yhat, LossFn y yhat loss, Backward loss,
                 OptimizerStep, OptimizerZeroGrad],
          snd (make_train_step T model loss_fn optimizer x y w))"
    using call lf
    by (simp add: make_train_step_def traced_torch_def traced_module_def
        traced_loss_fn_def traced_optimizer_def Let_def)
  moreover have "fst (make_train_step T model loss_fn optimizer x y w)
       = t_item T loss (snd (make_train_step T model loss_fn optimizer x y w))"
    using call lf by (simp add: make_train_step_def Let_def)
  ultimately show ?thesis by blast
qed

section \<open>The loss callable against the written-out loss\<close>

text \<open>
  Claim C2. For label and prediction vectors of equal length the loss function created
  by \<^verbatim>\<open>nn.MSELoss(reduction='mean')\<close> returns the mean of the squared elementwise
  errors, the value of the written-out \<^verbatim>\<open>error = y_train_tensor - yhat\<close>,
  \<^verbatim>\<open>loss = (error ** 2).mean()\<close>; consequently the loop that uses \<open>loss_fn\<close> and
  the loop with the written-out loss compute the same loss in every epoch and, from the
  same start, reach the same parameters. For every loss callable that returns what the
  written-out expression returns and leaves the state alone, one iteration, the loop over
  any number of epochs and the loss of every epoch are the same in both cells; the
  reference \<open>MSELoss\<close> is such a callable, its value on vectors of equal length is the
  mean of the squared differences, and the two cells coincide on it.
\<close>

theorem mse_loss_is_manual_loss:
  assumes mse: "\<And>t v. loss_fn y t v = (t_mean T (t_pow T (t_sub T y t v) 2 v) v, v)"
  shows "mse_loss_epoch T loss_fn optimizer a b x y w = manual_loss_epoch T optimizer a b x y w
       \<and> mse_loss_loop T loss_fn optimizer a b x y n w
         = manual_loss_loop T optimizer a b x y n w
       \<and> fst (mse_loss_epoch T loss_fn optimizer a b x y
                (mse_loss_loop T loss_fn optimizer a b x y k w))
         = fst (manual_loss_epoch T optimizer a b x y (manual_loss_loop T optimizer a b x y k w))
       \<and> MSELoss s t v
         = (t_mean ref_torch (t_pow ref_torch (t_sub ref_torch s t v) 2 v) v, v)
       \<and> (length (vals v s) = length (vals v t) \<longrightarrow>
            vals v' (fst (MSELoss s t v))
              = [tsum (map2 (\<lambda>yi yhi. (yi - yhi) ^ 2) (vals v s) (vals v t))
                   / count (length (vals v s))])
       \<and> mse_loss_cell_loss p q a0 b0 lr xs ys k u = manual_loss_cell_loss p q a0 b0 lr xs ys k u
       \<and> mse_loss_cell p q a0 b0 lr xs ys n u = manual_loss_cell p q a0 b0 lr xs ys n u"
proof -
  have epoch: "mse_loss_epoch T loss_fn optimizer a b x y v
             = manual_loss_epoch T optimizer a b x y v" for v
    by (simp add: mse_loss_epoch_def manual_loss_epoch_def mse Let_def)
  have loop: "mse_loss_loop T loss_fn optimizer a b x y j v
            = manual_loss_loop T optimizer a b x y j v" for j v
    by (induction j arbitrary: v) (simp_all add: epoch)
  have val: "vals v' (fst (MSELoss s t v))
              = [tsum (map2 (\<lambda>yi yhi. (yi - yhi) ^ 2) (vals v s) (vals v t))
                   / count (length (vals v s))]"
    if "length (vals v s) = length (vals v t)"
    using that by (simp add: MSELoss_def bcast_same_length comp_def case_prod_unfold)
  have ref: "MSELoss s t v
         = (t_mean ref_torch (t_pow ref_torch (t_sub ref_torch s t v) 2 v) v, v)"
    by (simp add: MSELoss_def ref_torch_def)
  have cells: "mse_loss_cell_loss p q a0 b0 lr xs ys k u
             = manual_loss_cell_loss p q a0 b0 lr xs ys k u"
    "mse_loss_cell p q a0 b0 lr xs ys n u = manual_loss_cell p q a0 b0 lr xs ys n u"
    by (simp_all add: mse_loss_cell_loss_def manual_loss_cell_loss_def mse_loss_cell_def
        manual_loss_cell_def mse_loss_epoch_ref mse_loss_loop_ref)
  show ?thesis
    using epoch [of w] loop [of n w] epoch [of "manual_loss_loop T optimizer a b x y k w"]
      loop [of k w] ref val cells
    by simp
qed

theorem mse_loss_is_manual_loss_witness:
  "mse_loss_loop ref_torch MSELoss (SGD [0, 1] (1 / 10)) (Parameter 0) (Parameter 1)
       (data_tensor [1]) (data_tensor [3]) n_epochs (fresh_parameters 0 1 0 0 last_cell_state)
     = manual_loss_loop ref_torch (SGD [0, 1] (1 / 10)) (Parameter 0) (Parameter 1)
       (data_tensor [1]) (data_tensor [3]) n_epochs (fresh_parameters 0 1 0 0 last_cell_state)
   \<and> fst (mse_loss_epoch ref_torch MSELoss (SGD [0, 1] (1 / 10)) (Parameter 0) (Parameter 1)
       (data_tensor [1]) (data_tensor [3]) (fresh_parameters 0 1 0 0 last_cell_state))
     = fst (manual_loss_epoch ref_torch (SGD [0, 1] (1 / 10)) (Parameter 0) (Parameter 1)
       (data_tensor [1]) (data_tensor [3]) (fresh_parameters 0 1 0 0 last_cell_state))
   \<and> vals last_cell_state (fst (MSELoss (data_tensor [3, 5]) (data_tensor [1, 2]) last_cell_state))
     = [13 / 2]"
proof -
  have h: "MSELoss (data_tensor [3 :: rat]) t v
         = (t_mean ref_torch (t_pow ref_torch (t_sub ref_torch (data_tensor [3]) t v) 2 v) v, v)"
    for t v
    by (simp add: MSELoss_def ref_torch_def)
  note T = mse_loss_is_manual_loss [where loss_fn = MSELoss and y = "data_tensor [3 :: rat]"
      and T = ref_torch and optimizer = "SGD [0, 1] (1 / 10)" and a = "Parameter 0"
      and b = "Parameter 1" and x = "data_tensor [1]"
      and w = "fresh_parameters 0 1 0 0 last_cell_state" and n = n_epochs and k = 0
      and s = "data_tensor [3, 5 :: rat]" and t = "data_tensor [1, 2]"
      and v = last_cell_state and v' = last_cell_state
      and p = 0 and q = 1 and ?a0.0 = "0 :: rat" and ?b0.0 = 0 and lr = "1 / 10"
      and xs = "[1]" and ys = "[3]" and u = last_cell_state, OF h]
  show ?thesis
    using T by (simp add: count_def numeral_2_eq_2 MSELoss_def ref_torch_def)
qed

section \<open>The forward pass of \<^verbatim>\<open>ManualLinearRegression\<close>\<close>

text \<open>
  Claim C4. Calling a \<^verbatim>\<open>ManualLinearRegression\<close> model on an input \<open>x\<close> performs
  the forward pass: the call returns \<^verbatim>\<open>self.a + self.b * x\<close>, built from the
  framework's tensor addition and multiplication, and changes nothing; on the reference
  tensors the elements of the result are \<open>a + b * x\<^sub>i\<close> for the values \<open>a\<close> and \<open>b\<close>
  that the two parameters hold in the state at the time of the call.
\<close>

theorem forward_values:
  "m_call (ManualLinearRegression_module T module_train' self) x v
     = (t_add T (self_a self) (t_mul T (self_b self) x v) v, v)
   \<and> vals w' (forward ref_torch \<lparr>self_a = Parameter a, self_b = Parameter b\<rparr> t w)
     = map (\<lambda>xi. data w a + data w b * xi) (vals w t)
   \<and> m_call (ManualLinearRegression_module ref_torch tr
               \<lparr>self_a = Parameter a, self_b = Parameter b\<rparr>) t w
     = (forward ref_torch \<lparr>self_a = Parameter a, self_b = Parameter b\<rparr> t w, w)"
  by (simp add: forward_def ref_torch_def ManualLinearRegression_module_def)

section \<open>One optimizer step\<close>

text \<open>
  Claim C5. A call of \<^verbatim>\<open>optimizer.step()\<close> is one application of the update rule
  to the set of parameters the optimizer was constructed with: every parameter of the
  set that has an accumulated gradient gets the rule applied to its value and that
  gradient exactly once, a parameter of the set without a gradient and every parameter
  outside the set keep their values, and the gradients are left as they were.
\<close>

theorem optimizer_step_each_parameter_once:
  assumes "distinct ps"
  shows "grad (optimizer_step rule ps w) = grad w
       \<and> training (optimizer_step rule ps w) = training w
       \<and> (\<forall>p. data (optimizer_step rule ps w) p
              = (if p \<in> set ps
                 then (case grad w p of None \<Rightarrow> data w p | Some g \<Rightarrow> rule (data w p) g)
                 else data w p))"
  using assms
proof (induction ps arbitrary: w)
  case Nil
  show ?case by simp
next
  case (Cons q qs)
  let ?w = "case grad w q of None \<Rightarrow> w | Some g \<Rightarrow> w\<lparr>data := (data w)(q := rule (data w q) g)\<rparr>"
  have g: "grad ?w = grad w" by (simp split: option.splits)
  have q: "q \<notin> set qs" and d: "distinct qs" using Cons.prems by simp_all
  have IH: "\<forall>p. data (optimizer_step rule qs ?w) p
              = (if p \<in> set qs
                 then (case grad ?w p of None \<Rightarrow> data ?w p | Some g \<Rightarrow> rule (data ?w p) g)
                 else data ?w p)"
    using Cons.IH [OF d, of ?w] by blast
  have "data (optimizer_step rule (q # qs) w) p
              = (if p \<in> set (q # qs)
                 then (case grad w p of None \<Rightarrow> data w p | Some g \<Rightarrow> rule (data w p) g)
                 else data w p)" for p
  proof (cases "p = q")
    case True
    then show ?thesis using q IH by (simp split: option.splits)
  next
    case False
    then show ?thesis using IH g by (simp split: option.splits)
  qed
  then show ?case by (simp split: option.splits)
qed

theorem optimizer_step_each_parameter_once_witness:
  "distinct [0, 1 :: nat]
   \<and> data (optimizer_step (\<lambda>p g. p - 1 / 10 * g) [0, 1]
        \<lparr>data = (\<lambda>p. 0)(0 := 1, 1 := 2), grad = (\<lambda>p. None)(0 \<mapsto> 10),
         training = (\<lambda>m. False)\<rparr>) 0 = (0 :: rat)
   \<and> data (optimizer_step (\<lambda>p g. p - 1 / 10 * g) [0, 1]
        \<lparr>data = (\<lambda>p. 0)(0 := 1, 1 := 2), grad = (\<lambda>p. None)(0 \<mapsto> 10),
         training = (\<lambda>m. False)\<rparr>) 1 = (2 :: rat)
   \<and> data (optimizer_step (\<lambda>p g. p - 1 / 10 * g) [0, 1]
        \<lparr>data = (\<lambda>p. 0)(0 := 1, 1 := 2), grad = (\<lambda>p. None)(0 \<mapsto> 10),
         training = (\<lambda>m. False)\<rparr>) 7 = (0 :: rat)"
proof -
  have d: "distinct [0, 1 :: nat]" by simp
  show ?thesis
    using d optimizer_step_each_parameter_once [OF d, of "\<lambda>p g. p - 1 / 10 * g"
        "\<lparr>data = (\<lambda>p. 0)(0 := 1, 1 := 2), grad = (\<lambda>p. None)(0 \<mapsto> 10),
         training = (\<lambda>m. False)\<rparr> :: rat world"]
    by (simp del: optimizer_step.simps)
qed

section \<open>The loop over \<^verbatim>\<open>train_step\<close> against the inline loop\<close>

lemma train_step_world:
  "snd (make_train_step T model loss_fn optimizer x y w)
     = inline_epoch T model loss_fn optimizer x y w"
  by (simp add: make_train_step_def inline_epoch_def Let_def split: prod.splits)

text \<open>
  Claim C6. The loop that calls \<^verbatim>\<open>train_step(x_train_tensor, y_train_tensor)\<close> once
  per epoch does, per epoch, what the inline loop does (\<^verbatim>\<open>model.train()\<close>, the
  forward pass, the loss, \<^verbatim>\<open>loss.backward()\<close>, \<^verbatim>\<open>optimizer.step()\<close>,
  \<^verbatim>\<open>optimizer.zero_grad()\<close>): started in the same state on the same model, loss
  function, optimizer and data, both leave the same state, hence the same model
  parameters, after any number of epochs, \<open>n_epochs\<close> among them.
\<close>

theorem train_step_loop_is_inline_loop:
  "snd (train_step_loop (make_train_step T model loss_fn optimizer) x y n losses w)
     = inline_loop T model loss_fn optimizer x y n w
   \<and> snd (train_step_loop (make_train_step T model loss_fn optimizer) x y n_epochs [] w)
     = inline_loop T model loss_fn optimizer x y n_epochs w"
proof -
  have step: "snd (train_step_loop (make_train_step T model loss_fn optimizer) x y k ls v)
     = inline_loop T model loss_fn optimizer x y k v" for k ls v
  proof (induction k arbitrary: ls v)
    case 0
    show ?case by simp
  next
    case (Suc k)
    obtain l v' where ts: "make_train_step T model loss_fn optimizer x y v = (l, v')"
      by (cases "make_train_step T model loss_fn optimizer x y v")
    have "v' = inline_epoch T model loss_fn optimizer x y v"
      using train_step_world [of T model loss_fn optimizer x y v] ts by simp
    then show ?case
      using ts Suc.IH [of "ls @ [l]" v'] by simp
  qed
  show ?thesis using step by blast
qed

section \<open>What a call of \<^verbatim>\<open>train_step\<close> writes\<close>

text \<open>
  Claim C7. A call of \<^verbatim>\<open>train_step(x, y)\<close> changes the model's parameters only
  through \<^verbatim>\<open>optimizer.step()\<close> and the gradients only through
  \<^verbatim>\<open>loss.backward()\<close> and \<^verbatim>\<open>optimizer.zero_grad()\<close>, and leaves the input
  tensors as they were. The training step consists of framework calls only, so the
  statement is about them: when the other calls leave the parameters alone, the
  parameters reach \<^verbatim>\<open>optimizer.step()\<close> with their values on entry and have on
  return the values that call gave them; when the calls other than
  \<^verbatim>\<open>loss.backward()\<close> and \<^verbatim>\<open>optimizer.zero_grad()\<close> leave the gradients alone,
  the gradients reach \<^verbatim>\<open>loss.backward()\<close> as on entry and pass
  \<^verbatim>\<open>optimizer.step()\<close> unchanged; when no call writes to the inputs, they are on
  return what they were on entry.
\<close>

theorem train_step_frame:
  fixes params :: "'w \<Rightarrow> 'p" and grads :: "'w \<Rightarrow> 'g" and inputs :: "'w \<Rightarrow> 'i"
  assumes p_train: "leaves params (m_train model)"
    and p_call: "\<And>t. leaves params (\<lambda>v. snd (m_call model t v))"
    and p_loss: "\<And>s t. leaves params (\<lambda>v. snd (loss_fn s t v))"
    and p_backward: "\<And>t. leaves params (t_backward T t)"
    and p_zero: "leaves params (o_zero_grad optimizer)"
    and g_train: "leaves grads (m_train model)"
    and g_call: "\<And>t. leaves grads (\<lambda>v. snd (m_call model t v))"
    and g_loss: "\<And>s t. leaves grads (\<lambda>v. snd (loss_fn s t v))"
    and g_step: "leaves grads (o_step optimizer)"
    and i_train: "leaves inputs (m_train model)"
    and i_call: "\<And>t. leaves inputs (\<lambda>v. snd (m_call model t v))"
    and i_loss: "\<And>s t. leaves inputs (\<lambda>v. snd (loss_fn s t v))"
    and i_backward: "\<And>t. leaves inputs (t_backward T t)"
    and i_step: "leaves inputs (o_step optimizer)"
    and i_zero: "leaves inputs (o_zero_grad optimizer)"
  shows "\<exists>loss w3.
           let w4 = t_backward T loss w3;
               w5 = o_step optimizer w4;
               w6 = o_zero_grad optimizer w5
           in snd (make_train_step T model loss_fn optimizer x y w) = w6
              \<and> params w4 = params w \<and> params w6 = params w5
              \<and> grads w3 = grads w \<and> grads w5 = grads w4
              \<and> inputs w6 = inputs w"
proof -
  obtain yhat w2 where call: "m_call model x (m_train model w) = (yhat, w2)"
    by (cases "m_call model x (m_train model w)")
  obtain loss w3 where lf: "loss_fn y yhat w2 = (loss, w3)"
    by (cases "loss_fn y yhat w2")
  have w2: "w2 = snd (m_call model x (m_train model w))" using call by simp
  have w3: "w3 = snd (loss_fn y yhat w2)" using lf by simp
  have p3: "params w3 = params w"
    using p_train p_call [of x] p_loss [of y yhat] by (simp add: leaves_def w2 w3)
  have g3: "grads w3 = grads w"
    using g_train g_call [of x] g_loss [of y yhat] by (simp add: leaves_def w2 w3)
  have i3: "inputs w3 = inputs w"
    using i_train i_call [of x] i_loss [of y yhat] by (simp add: leaves_def w2 w3)
  have "snd (make_train_step T model loss_fn optimizer x y w)
          = o_zero_grad optimizer (o_step optimizer (t_backward T loss w3))"
    using call lf by (simp add: make_train_step_def Let_def)
  moreover have "params (t_backward T loss w3) = params w"
    using p_backward [of loss] p3 by (simp add: leaves_def)
  moreover have "params (o_zero_grad optimizer (o_step optimizer (t_backward T loss w3)))
          = params (o_step optimizer (t_backward T loss w3))"
    using p_zero by (simp add: leaves_def)
  moreover have "grads (o_step optimizer (t_backward T loss w3)) = grads (t_backward T loss w3)"
    using g_step by (simp add: leaves_def)
  moreover have "inputs (o_zero_grad optimizer (o_step optimizer (t_backward T loss w3)))
          = inputs w"
    using i_backward [of loss] i_step i_zero i3 by (simp add: leaves_def)
  ultimately show ?thesis
    using g3 by (auto simp: Let_def)
qed

theorem train_step_frame_witness:
  "\<exists>loss w3.
     let w4 = t_backward ref_torch loss w3;
         w5 = o_step (SGD [2, 3] (1 / 10)) w4;
         w6 = o_zero_grad (SGD [2, 3] (1 / 10)) w5
     in snd (make_train_step ref_torch (Sequential 1 [Linear 2 2 3]) MSELoss
               (SGD [2, 3] (1 / 10)) (data_tensor [1]) (data_tensor [3]) last_cell_state) = w6
        \<and> data w4 = data last_cell_state \<and> data w6 = data w5
        \<and> grad w3 = grad last_cell_state \<and> grad w5 = grad w4
        \<and> (vals w6 (data_tensor [1 :: rat]), vals w6 (data_tensor [3 :: rat]))
            = (vals last_cell_state (data_tensor [1]), vals last_cell_state (data_tensor [3]))"
  by (rule train_step_frame [where params = data and grads = grad
        and inputs = "\<lambda>v. (vals v (data_tensor [1 :: rat]), vals v (data_tensor [3 :: rat]))"])
     (simp_all add: leaves_def last_cell_model_call MSELoss_def SGD_def ref_torch_def
        del: optimizer_step.simps zero_grad.simps)

section \<open>The gradients at the end of an iteration\<close>

lemma last_cell_step:
  fixes w :: "rat world"
  assumes "data w 2 = 0" "data w 3 = 0"
  shows "fst (last_cell_train_step (data_tensor [1]) (data_tensor [3]) w) = Some 9
       \<and> data (snd (last_cell_train_step (data_tensor [1]) (data_tensor [3]) w)) 2 = 0
       \<and> data (snd (last_cell_train_step (data_tensor [1]) (data_tensor [3]) w)) 3 = 0
       \<and> grad (snd (last_cell_train_step (data_tensor [1]) (data_tensor [3]) w)) 2
           = Some (case grad w 2 of None \<Rightarrow> - 6 | Some g \<Rightarrow> g + - 6)
       \<and> grad (snd (last_cell_train_step (data_tensor [1]) (data_tensor [3]) w)) 3
           = Some (case grad w 3 of None \<Rightarrow> - 6 | Some g \<Rightarrow> g + - 6)
       \<and> grad (snd (last_cell_train_step (data_tensor [1]) (data_tensor [3]) w)) 0
           = map_option (\<lambda>g. 0) (grad w 0)
       \<and> grad (snd (last_cell_train_step (data_tensor [1]) (data_tensor [3]) w)) 1
           = map_option (\<lambda>g. 0) (grad w 1)"
proof -
  define v where "v = module_train 2 (module_train 1 w)"
  define loss where "loss = fst (MSELoss (data_tensor [3])
     (ref_add (ref_mul (data_tensor [1]) (Parameter 2) v) (Parameter 3) v) v)"
  define w4 where "w4 = ref_backward loss v"
  have dv: "data v 2 = 0" "data v 3 = 0" "grad v = grad w"
    using assms by (simp_all add: v_def)
  have item: "ref_item loss u = Some 9" for u
    using dv by (simp add: loss_def MSELoss_def ref_item_def)
  have contrib: "vjp loss [1] = [(2, - 6), (3, - 6)]"
    using dv by (simp add: loss_def MSELoss_def unbroadcast_def)
  have g4: "grad w4 2 = Some (case grad w 2 of None \<Rightarrow> - 6 | Some g \<Rightarrow> g + - 6)"
    "grad w4 3 = Some (case grad w 3 of None \<Rightarrow> - 6 | Some g \<Rightarrow> g + - 6)"
    "data w4 2 = 0" "data w4 3 = 0" "grad w4 0 = grad w 0" "grad w4 1 = grad w 1"
    using dv contrib by (simp_all add: w4_def ref_backward_def split: option.splits)
  have ts: "last_cell_train_step (data_tensor [1]) (data_tensor [3]) w
     = (ref_item loss (zero_grad [0, 1] (optimizer_step (\<lambda>p g. p - 1 / 10 * g) [0, 1] w4)),
        zero_grad [0, 1] (optimizer_step (\<lambda>p g. p - 1 / 10 * g) [0, 1] w4))"
    by (simp add: last_cell_train_step_def make_train_step_def last_cell_model_call MSELoss_def
        SGD_def ref_torch_def loss_def w4_def v_def Let_def
        del: optimizer_step.simps zero_grad.simps)
  show ?thesis
    using g4 item
    by (simp add: ts optimizer_step_other zero_grad_grad
        del: optimizer_step.simps zero_grad.simps)
qed

text \<open>
  Claim C8. At the end of every \<^verbatim>\<open>train_step\<close> call and of every iteration of every
  training loop the accumulated gradients are zero, so that each epoch's backward pass
  starts from zero. The last cell of the notebook does not keep this: its optimizer
  was constructed over the parameters of the earlier model, so \<^verbatim>\<open>zero_grad()\<close> never
  reaches the weight and the bias of the model that \<^verbatim>\<open>train_step\<close> runs. On the
  reference instance, with one training point, the weight's gradient is \<open>-6\<close> after
  the first call and \<open>-12\<close> after the second, the loss is 9 in both epochs, and
  weight and bias stay at their initial values, while the gradients of the two
  parameters the optimizer does hold are zero.
\<close>

theorem last_cell_gradients_never_zeroed:
  "fst (train_step_loop last_cell_train_step (data_tensor [1]) (data_tensor [3]) 2 []
          last_cell_state) = [Some 9, Some 9]
   \<and> grad (snd (train_step_loop last_cell_train_step (data_tensor [1]) (data_tensor [3]) 1 []
          last_cell_state)) 2 = Some (- 6)
   \<and> grad (snd (train_step_loop last_cell_train_step (data_tensor [1]) (data_tensor [3]) 2 []
          last_cell_state)) 2 = Some (- 12)
   \<and> data (snd (train_step_loop last_cell_train_step (data_tensor [1]) (data_tensor [3]) 2 []
          last_cell_state)) 2 = 0
   \<and> data (snd (train_step_loop last_cell_train_step (data_tensor [1]) (data_tensor [3]) 2 []
          last_cell_state)) 3 = 0
   \<and> grad (snd (train_step_loop last_cell_train_step (data_tensor [1]) (data_tensor [3]) 2 []
          last_cell_state)) 0 = Some 0
   \<and> grad (snd (train_step_loop last_cell_train_step (data_tensor [1]) (data_tensor [3]) 2 []
          last_cell_state)) 1 = Some 0"
proof -
  let ?x = "data_tensor [1::rat]" and ?y = "data_tensor [3::rat]"
  obtain l1 w1 where s1: "last_cell_train_step ?x ?y last_cell_state = (l1, w1)"
    by (cases "last_cell_train_step ?x ?y last_cell_state")
  obtain l2 w2 where s2: "last_cell_train_step ?x ?y w1 = (l2, w2)"
    by (cases "last_cell_train_step ?x ?y w1")
  have d0: "data last_cell_state 2 = 0" "data last_cell_state 3 = 0"
    "grad last_cell_state 2 = None" "grad last_cell_state 3 = None"
    "grad last_cell_state 0 = Some 0" "grad last_cell_state 1 = Some 0"
    by (simp_all add: last_cell_state_def)
  have r1: "l1 = Some 9" "data w1 2 = 0" "data w1 3 = 0" "grad w1 2 = Some (- 6)"
    "grad w1 3 = Some (- 6)" "grad w1 0 = Some 0" "grad w1 1 = Some 0"
    using last_cell_step [OF d0(1,2)] s1 d0(3-6) by simp_all
  have r2: "l2 = Some 9" "data w2 2 = 0" "data w2 3 = 0" "grad w2 2 = Some (- 12)"
    "grad w2 0 = Some 0" "grad w2 1 = Some 0"
    using last_cell_step [OF r1(2,3)] s2 r1(4-7) by simp_all
  have one: "train_step_loop last_cell_train_step ?x ?y 1 [] last_cell_state = ([l1], w1)"
    using s1 by simp
  have two: "train_step_loop last_cell_train_step ?x ?y 2 [] last_cell_state = ([l1, l2], w2)"
    using s1 s2 by (simp add: numeral_2_eq_2)
  show ?thesis
    using one two r1 r2 by simp
qed

section \<open>The number \<^verbatim>\<open>train_step\<close> returns and the list of losses\<close>

lemma train_step_loop_length:
  "length (fst (train_step_loop ts x y n losses w)) = length losses + n"
proof (induction n arbitrary: losses w)
  case 0
  show ?case by simp
next
  case (Suc n)
  obtain l w' where s: "ts x y w = (l, w')" by (cases "ts x y w")
  show ?case using s Suc.IH [of "losses @ [l]" w'] by simp
qed

lemma train_step_loop_Suc:
  "train_step_loop ts x y (Suc n) losses w
     = (let (ls, w') = train_step_loop ts x y n losses w;
            (l, w'') = ts x y w'
        in (ls @ [l], w''))"
proof (induction n arbitrary: losses w)
  case 0
  show ?case by (simp split: prod.splits)
next
  case (Suc n)
  obtain l w' where s: "ts x y w = (l, w')" by (cases "ts x y w")
  have "train_step_loop ts x y (Suc (Suc n)) losses w
          = train_step_loop ts x y (Suc n) (losses @ [l]) w'"
    using s by simp
  also have "\<dots> = (let (ls, v) = train_step_loop ts x y n (losses @ [l]) w';
                         (l', v') = ts x y v
                     in (ls @ [l'], v'))"
    by (rule Suc.IH)
  also have "train_step_loop ts x y n (losses @ [l]) w' = train_step_loop ts x y (Suc n) losses w"
    using s by simp
  finally show ?case .
qed

lemma train_step_loop_nth:
  "k < n \<Longrightarrow> fst (train_step_loop ts x y n [] w) ! k
     = fst (ts x y (snd (train_step_loop ts x y k [] w)))"
proof (induction n)
  case 0
  then show ?case by simp
next
  case (Suc n)
  obtain ls v where a: "train_step_loop ts x y n [] w = (ls, v)"
    by (cases "train_step_loop ts x y n [] w")
  obtain l v' where b: "ts x y v = (l, v')" by (cases "ts x y v")
  have len: "length ls = n" using train_step_loop_length [of ts x y n "[]" w] a by simp
  have S: "fst (train_step_loop ts x y (Suc n) [] w) = ls @ [l]"
    using a b by (simp add: train_step_loop_Suc del: train_step_loop.simps)
  show ?case
  proof (cases "k = n")
    case True
    then show ?thesis using S len a b by (simp add: nth_append)
  next
    case False
    then have "k < n" using Suc.prems by simp
    then show ?thesis using S len a Suc.IH by (simp add: nth_append)
  qed
qed

text \<open>
  Claim C9. The number \<^verbatim>\<open>train_step(x, y)\<close> returns is \<^verbatim>\<open>loss.item()\<close> of the loss
  computed by the forward pass and the loss function on the state the call was entered
  with (after \<^verbatim>\<open>model.train()\<close>), before \<^verbatim>\<open>optimizer.step()\<close> runs, given that
  the later calls do not write to that loss tensor; the list \<open>losses\<close> has length
  \<open>n_epochs\<close> after the loop, and its entry \<open>k\<close> is the number returned by the call
  made in epoch \<open>k\<close>.
\<close>

theorem train_step_returns_loss_of_entry_state:
  assumes "m_call model x (m_train model w) = (yhat, w2)"
    and "loss_fn y yhat w2 = (loss, w3)"
    and "\<And>v. t_item T loss (t_backward T loss v) = t_item T loss v"
    and "\<And>v. t_item T loss (o_step optimizer v) = t_item T loss v"
    and "\<And>v. t_item T loss (o_zero_grad optimizer v) = t_item T loss v"
  shows "fst (make_train_step T model loss_fn optimizer x y w) = t_item T loss w3
       \<and> length (fst (train_step_loop (make_train_step T model loss_fn optimizer) x y
                        n_epochs [] w)) = n_epochs
       \<and> (\<forall>k<n_epochs.
            fst (train_step_loop (make_train_step T model loss_fn optimizer) x y n_epochs [] w) ! k
              = fst (make_train_step T model loss_fn optimizer x y
                       (snd (train_step_loop (make_train_step T model loss_fn optimizer) x y
                               k [] w))))"
proof -
  have "fst (make_train_step T model loss_fn optimizer x y w) = t_item T loss w3"
    using assms by (simp add: make_train_step_def Let_def)
  moreover have "length (fst (train_step_loop (make_train_step T model loss_fn optimizer) x y
                        n_epochs [] w)) = n_epochs"
    using train_step_loop_length [of _ x y n_epochs "[]" w] by simp
  ultimately show ?thesis
    using train_step_loop_nth [of _ n_epochs "make_train_step T model loss_fn optimizer" x y w]
    by blast
qed

theorem train_step_returns_loss_of_entry_state_witness:
  "fst (make_train_step ref_torch (Sequential 1 [Linear 2 2 3]) MSELoss (SGD [2, 3] (1 / 10))
          (data_tensor [1]) (data_tensor [3]) last_cell_state) = Some 9
   \<and> length (fst (train_step_loop
                    (make_train_step ref_torch (Sequential 1 [Linear 2 2 3]) MSELoss
                       (SGD [2, 3] (1 / 10)))
                    (data_tensor [1]) (data_tensor [3]) n_epochs [] last_cell_state)) = 1000
   \<and> fst (train_step_loop
            (make_train_step ref_torch (Sequential 1 [Linear 2 2 3]) MSELoss
               (SGD [2, 3] (1 / 10)))
            (data_tensor [1]) (data_tensor [3]) n_epochs [] last_cell_state) ! 0 = Some 9"
proof -
  let ?M = "Sequential 1 [Linear 2 2 3] :: (rat world, rat tensor) module"
  let ?x = "data_tensor [1 :: rat]" and ?y = "data_tensor [3 :: rat]"
  let ?v = "m_train ?M last_cell_state"
  let ?yhat = "ref_add (ref_mul ?x (Parameter 2) ?v) (Parameter 3) ?v"
  let ?loss = "ref_mean (ref_pow (ref_sub ?y ?yhat ?v) 2 ?v) ?v"
  have c: "m_call ?M ?x ?v = (?yhat, ?v)"
    by (simp add: last_cell_model_call)
  have l: "MSELoss ?y ?yhat ?v = (?loss, ?v)"
    by (simp add: MSELoss_def)
  have i: "t_item ref_torch ?loss u = Some 9" for u
    by (simp add: ref_torch_def ref_item_def last_cell_model_call last_cell_state_def)
  have pos: "0 < n_epochs" by (simp add: n_epochs_def)
  note T = train_step_returns_loss_of_entry_state
             [of ?M ?x last_cell_state ?yhat ?v MSELoss ?y ?loss ?v ref_torch
                 "SGD [2, 3] (1 / 10)", OF c l]
  show ?thesis
    using T pos i by (simp add: n_epochs_def)
qed

section \<open>The two loops over \<open>a\<close> and \<open>b\<close> are functions of the initial values and the data\<close>

lemma agree_at_accumulate:
  "agree_at p w1 w2 \<Longrightarrow> agree_at p (foldl accumulate w1 l) (foldl accumulate w2 l)"
proof (induction l arbitrary: w1 w2)
  case Nil
  then show ?case by simp
next
  case (Cons pg l)
  have "agree_at p (accumulate w1 pg) (accumulate w2 pg)"
    using Cons.prems by (auto simp: agree_at_def)
  then show ?case using Cons.IH by simp
qed

lemma agree_at_optimizer_step:
  "agree_at p w1 w2 \<Longrightarrow> agree_at p (optimizer_step rule ps w1) (optimizer_step rule ps w2)"
proof (induction ps arbitrary: w1 w2)
  case Nil
  then show ?case by simp
next
  case (Cons q ps)
  have "agree_at p
          (case grad w1 q of None \<Rightarrow> w1 | Some g \<Rightarrow> w1\<lparr>data := (data w1)(q := rule (data w1 q) g)\<rparr>)
          (case grad w2 q of None \<Rightarrow> w2 | Some g \<Rightarrow> w2\<lparr>data := (data w2)(q := rule (data w2 q) g)\<rparr>)"
    using Cons.prems by (auto simp: agree_at_def split: option.splits)
  then show ?case using Cons.IH by simp
qed

lemma agree_at_zero_grad:
  "agree_at p w1 w2 \<Longrightarrow> agree_at p (zero_grad ps w1) (zero_grad ps w2)"
  by (simp add: agree_at_def zero_grad_grad)

lemma loss_agree:
  assumes "agree_at a w1 w2" "agree_at b w1 w2"
  shows "ref_add (Parameter a) (ref_mul (Parameter b) (data_tensor xs) w1) w1
       = ref_add (Parameter a) (ref_mul (Parameter b) (data_tensor xs) w2) w2"
  using assms by (simp add: agree_at_def ref_add_def ref_mul_def)

lemma ref_sub_data_cong:
  "vals w1 s = vals w2 s \<Longrightarrow> ref_sub (data_tensor ys) s w1 = ref_sub (data_tensor ys) s w2"
  by (simp add: ref_sub_def)

lemma ref_pow_cong: "vals w1 s = vals w2 s \<Longrightarrow> ref_pow s k w1 = ref_pow s k w2"
  by (simp add: ref_pow_def)

lemma ref_mean_cong: "vals w1 s = vals w2 s \<Longrightarrow> ref_mean s w1 = ref_mean s w2"
  by (simp add: ref_mean_def)

lemma manual_loss_epoch_agree:
  assumes "agree_at a w1 w2" "agree_at b w1 w2"
  shows "fst (manual_loss_epoch ref_torch (SGD ps lr) (Parameter a) (Parameter b)
               (data_tensor xs) (data_tensor ys) w1)
       = fst (manual_loss_epoch ref_torch (SGD ps lr) (Parameter a) (Parameter b)
               (data_tensor xs) (data_tensor ys) w2)"
    and "agree_at p w1 w2 \<Longrightarrow>
         agree_at p
           (snd (manual_loss_epoch ref_torch (SGD ps lr) (Parameter a) (Parameter b)
                  (data_tensor xs) (data_tensor ys) w1))
           (snd (manual_loss_epoch ref_torch (SGD ps lr) (Parameter a) (Parameter b)
                  (data_tensor xs) (data_tensor ys) w2))"
proof -
  let ?yhat = "\<lambda>w. ref_add (Parameter a) (ref_mul (Parameter b) (data_tensor xs) w) w"
  let ?loss = "\<lambda>w. ref_mean (ref_pow (ref_sub (data_tensor ys) (?yhat w) w) 2 w) w"
  have y: "?yhat w1 = ?yhat w2" using assms by (rule loss_agree)
  have "ref_sub (data_tensor ys) (?yhat w1) w1 = ref_sub (data_tensor ys) (?yhat w2) w2"
    unfolding y by (rule ref_sub_data_cong) simp
  then have "ref_pow (ref_sub (data_tensor ys) (?yhat w1) w1) 2 w1
           = ref_pow (ref_sub (data_tensor ys) (?yhat w2) w2) 2 w2"
    using ref_pow_cong [of w1 "ref_sub (data_tensor ys) (?yhat w2) w2" w2 2] by simp
  then have l: "?loss w1 = ?loss w2"
    using ref_mean_cong [of w1 "ref_pow (ref_sub (data_tensor ys) (?yhat w2) w2) 2 w2" w2]
    by simp
  have e: "manual_loss_epoch ref_torch (SGD ps lr) (Parameter a) (Parameter b)
               (data_tensor xs) (data_tensor ys) w
       = (?loss w, zero_grad ps (optimizer_step (\<lambda>p g. p - lr * g) ps (ref_backward (?loss w) w)))"
    for w
    by (simp add: manual_loss_epoch_def ref_torch_def SGD_def Let_def)
  show "fst (manual_loss_epoch ref_torch (SGD ps lr) (Parameter a) (Parameter b)
               (data_tensor xs) (data_tensor ys) w1)
       = fst (manual_loss_epoch ref_torch (SGD ps lr) (Parameter a) (Parameter b)
               (data_tensor xs) (data_tensor ys) w2)"
    using l by (simp add: e)
  show "agree_at p
           (snd (manual_loss_epoch ref_torch (SGD ps lr) (Parameter a) (Parameter b)
                  (data_tensor xs) (data_tensor ys) w1))
           (snd (manual_loss_epoch ref_torch (SGD ps lr) (Parameter a) (Parameter b)
                  (data_tensor xs) (data_tensor ys) w2))" if "agree_at p w1 w2"
  proof -
    have "agree_at p (ref_backward (?loss w1) w1) (ref_backward (?loss w2) w2)"
      unfolding l ref_backward_def using that by (rule agree_at_accumulate)
    then show ?thesis
      by (simp add: e agree_at_optimizer_step agree_at_zero_grad)
  qed
qed

lemma manual_loss_loop_agree:
  assumes "agree_at a w1 w2" "agree_at b w1 w2"
  shows "agree_at a
           (manual_loss_loop ref_torch (SGD ps lr) (Parameter a) (Parameter b)
              (data_tensor xs) (data_tensor ys) n w1)
           (manual_loss_loop ref_torch (SGD ps lr) (Parameter a) (Parameter b)
              (data_tensor xs) (data_tensor ys) n w2)
       \<and> agree_at b
           (manual_loss_loop ref_torch (SGD ps lr) (Parameter a) (Parameter b)
              (data_tensor xs) (data_tensor ys) n w1)
           (manual_loss_loop ref_torch (SGD ps lr) (Parameter a) (Parameter b)
              (data_tensor xs) (data_tensor ys) n w2)"
  using assms
proof (induction n arbitrary: w1 w2)
  case 0
  then show ?case by simp
next
  case (Suc n)
  show ?case
    using Suc.IH [OF manual_loss_epoch_agree(2) [OF Suc.prems Suc.prems(1)]
                     manual_loss_epoch_agree(2) [OF Suc.prems Suc.prems(2)]]
    by simp
qed

lemma fresh_parameters_agree:
  "agree_at a (fresh_parameters a b a0 b0 w1) (fresh_parameters a b a0 b0 w2)"
  "agree_at b (fresh_parameters a b a0 b0 w1) (fresh_parameters a b a0 b0 w2)"
  by (simp_all add: agree_at_def fresh_parameters_def)

text \<open>
  On the reference instance the two cells do not read anything but \<open>a\<close>, \<open>b\<close> and
  the data: run from any two states, once the parameters are created with the same
  values, they compute the same loss tensor in every epoch and end with the same values
  of \<open>a\<close> and \<open>b\<close>.
\<close>

lemma reference_cells_deterministic:
  "manual_loss_cell_loss a b a0 b0 lr xs ys k w1 = manual_loss_cell_loss a b a0 b0 lr xs ys k w2
   \<and> data (manual_loss_cell a b a0 b0 lr xs ys n w1) a
       = data (manual_loss_cell a b a0 b0 lr xs ys n w2) a
   \<and> data (manual_loss_cell a b a0 b0 lr xs ys n w1) b
       = data (manual_loss_cell a b a0 b0 lr xs ys n w2) b
   \<and> mse_loss_cell_loss a b a0 b0 lr xs ys k w1 = mse_loss_cell_loss a b a0 b0 lr xs ys k w2
   \<and> data (mse_loss_cell a b a0 b0 lr xs ys n w1) a
       = data (mse_loss_cell a b a0 b0 lr xs ys n w2) a
   \<and> data (mse_loss_cell a b a0 b0 lr xs ys n w1) b
       = data (mse_loss_cell a b a0 b0 lr xs ys n w2) b"
proof -
  have loop:
    "agree_at a (manual_loss_cell a b a0 b0 lr xs ys j w1) (manual_loss_cell a b a0 b0 lr xs ys j w2)
     \<and> agree_at b (manual_loss_cell a b a0 b0 lr xs ys j w1)
          (manual_loss_cell a b a0 b0 lr xs ys j w2)" for j
    unfolding manual_loss_cell_def
    by (rule manual_loss_loop_agree) (rule fresh_parameters_agree)+
  have k: "manual_loss_cell_loss a b a0 b0 lr xs ys k w1
         = manual_loss_cell_loss a b a0 b0 lr xs ys k w2"
    unfolding manual_loss_cell_loss_def
    using loop [of k] by (intro manual_loss_epoch_agree(1)) simp_all
  have n: "data (manual_loss_cell a b a0 b0 lr xs ys n w1) a
       = data (manual_loss_cell a b a0 b0 lr xs ys n w2) a"
    "data (manual_loss_cell a b a0 b0 lr xs ys n w1) b
       = data (manual_loss_cell a b a0 b0 lr xs ys n w2) b"
    using loop [of n] by (simp_all add: agree_at_def)
  have m: "mse_loss_cell_loss a b a0 b0 lr xs ys k w = manual_loss_cell_loss a b a0 b0 lr xs ys k w"
    "mse_loss_cell a b a0 b0 lr xs ys n w = manual_loss_cell a b a0 b0 lr xs ys n w" for k n w
    by (simp_all add: mse_loss_cell_loss_def manual_loss_cell_loss_def mse_loss_cell_def
        manual_loss_cell_def mse_loss_epoch_ref mse_loss_loop_ref)
  show ?thesis using k n by (simp add: m)
qed

text \<open>
  Claim C10. Each of the two training loops is deterministic after initialisation: two
  runs that start from states with the same parameters and use the same data compute
  the same loss in every epoch and end in states with the same parameters, since every
  operation of the loop body is a function of the parameters and the data. Here \<open>same\<close>
  says of two states that they hold the same parameters; the forward pass, the mean
  squared error (written out or from the loss callable), the gradient computation, the
  optimizer's step and its zeroing of the gradients are each assumed to give equal
  results on such states and to lead to such states again.
\<close>

theorem training_loops_deterministic:
  fixes same :: "'w \<Rightarrow> 'w \<Rightarrow> bool"
  assumes start: "same w1 w2"
    and forward_pass: "\<And>v1 v2. same v1 v2 \<Longrightarrow>
          t_add T a (t_mul T b x v1) v1 = t_add T a (t_mul T b x v2) v2"
    and manual_loss: "\<And>t v1 v2. same v1 v2 \<Longrightarrow>
          t_mean T (t_pow T (t_sub T y t v1) 2 v1) v1
            = t_mean T (t_pow T (t_sub T y t v2) 2 v2) v2"
    and mse_loss: "\<And>t v1 v2. same v1 v2 \<Longrightarrow>
          fst (loss_fn y t v1) = fst (loss_fn y t v2)
          \<and> same (snd (loss_fn y t v1)) (snd (loss_fn y t v2))"
    and gradients: "\<And>t v1 v2. same v1 v2 \<Longrightarrow> same (t_backward T t v1) (t_backward T t v2)"
    and sgd_step: "\<And>v1 v2. same v1 v2 \<Longrightarrow> same (o_step optimizer v1) (o_step optimizer v2)"
    and zeroing: "\<And>v1 v2. same v1 v2 \<Longrightarrow>
          same (o_zero_grad optimizer v1) (o_zero_grad optimizer v2)"
  shows "same (manual_loss_loop T optimizer a b x y n w1)
              (manual_loss_loop T optimizer a b x y n w2)
       \<and> fst (manual_loss_epoch T optimizer a b x y (manual_loss_loop T optimizer a b x y k w1))
         = fst (manual_loss_epoch T optimizer a b x y (manual_loss_loop T optimizer a b x y k w2))
       \<and> same (mse_loss_loop T loss_fn optimizer a b x y n w1)
              (mse_loss_loop T loss_fn optimizer a b x y n w2)
       \<and> fst (mse_loss_epoch T loss_fn optimizer a b x y
                (mse_loss_loop T loss_fn optimizer a b x y k w1))
         = fst (mse_loss_epoch T loss_fn optimizer a b x y
                (mse_loss_loop T loss_fn optimizer a b x y k w2))"
proof -
  have manual_epoch:
    "fst (manual_loss_epoch T optimizer a b x y v1) = fst (manual_loss_epoch T optimizer a b x y v2)
     \<and> same (snd (manual_loss_epoch T optimizer a b x y v1))
            (snd (manual_loss_epoch T optimizer a b x y v2))"
    if s: "same v1 v2" for v1 v2
  proof -
    let ?loss = "\<lambda>v. t_mean T (t_pow T (t_sub T y (t_add T a (t_mul T b x v) v) v) 2 v) v"
    have l: "?loss v1 = ?loss v2"
      using forward_pass [OF s] manual_loss [OF s, of "t_add T a (t_mul T b x v2) v2"] by simp
    have "same (t_backward T (?loss v1) v1) (t_backward T (?loss v2) v2)"
      unfolding l using s by (rule gradients)
    then have "same (o_zero_grad optimizer (o_step optimizer (t_backward T (?loss v1) v1)))
                    (o_zero_grad optimizer (o_step optimizer (t_backward T (?loss v2) v2)))"
      by (intro zeroing sgd_step)
    then show ?thesis
      using l by (simp add: manual_loss_epoch_def Let_def)
  qed
  have mse_epoch:
    "fst (mse_loss_epoch T loss_fn optimizer a b x y v1)
       = fst (mse_loss_epoch T loss_fn optimizer a b x y v2)
     \<and> same (snd (mse_loss_epoch T loss_fn optimizer a b x y v1))
            (snd (mse_loss_epoch T loss_fn optimizer a b x y v2))"
    if s: "same v1 v2" for v1 v2
  proof -
    let ?yhat = "t_add T a (t_mul T b x v2) v2"
    obtain l u1 where r1: "loss_fn y ?yhat v1 = (l, u1)" by (cases "loss_fn y ?yhat v1")
    obtain l' u2 where r2: "loss_fn y ?yhat v2 = (l', u2)" by (cases "loss_fn y ?yhat v2")
    have ll: "l' = l" and u: "same u1 u2"
      using mse_loss [OF s, of ?yhat] r1 r2 by simp_all
    have "same (t_backward T l u1) (t_backward T l u2)"
      using u by (rule gradients)
    then have "same (o_zero_grad optimizer (o_step optimizer (t_backward T l u1)))
                    (o_zero_grad optimizer (o_step optimizer (t_backward T l u2)))"
      by (intro zeroing sgd_step)
    then show ?thesis
      using forward_pass [OF s] r1 r2 ll by (simp add: mse_loss_epoch_def Let_def)
  qed
  have manual_run: "same (manual_loss_loop T optimizer a b x y j v1)
                         (manual_loss_loop T optimizer a b x y j v2)"
    if "same v1 v2" for j v1 v2
    using that
  proof (induction j arbitrary: v1 v2)
    case 0
    then show ?case by simp
  next
    case (Suc j)
    show ?case using Suc.IH manual_epoch [OF Suc.prems] by simp
  qed
  have mse_run: "same (mse_loss_loop T loss_fn optimizer a b x y j v1)
                      (mse_loss_loop T loss_fn optimizer a b x y j v2)"
    if "same v1 v2" for j v1 v2
    using that
  proof (induction j arbitrary: v1 v2)
    case 0
    then show ?case by simp
  next
    case (Suc j)
    show ?case using Suc.IH mse_epoch [OF Suc.prems] by simp
  qed
  show ?thesis
    using manual_run [OF start] mse_run [OF start]
      manual_epoch [OF manual_run [OF start, of k]] mse_epoch [OF mse_run [OF start, of k]]
    by simp
qed

lemma vals_agree: "(\<And>p. agree_at p v1 v2) \<Longrightarrow> vals v1 t = vals v2 t"
  by (cases t) (simp_all add: agree_at_def)

theorem training_loops_deterministic_witness:
  "(\<forall>p. agree_at p (manual_loss_cell 0 1 0 0 (1 / 10) [1] [3] n_epochs last_cell_state)
               (manual_loss_cell 0 1 0 0 (1 / 10) [1] [3] n_epochs
                  (last_cell_state\<lparr>training := (\<lambda>m. True)\<rparr>)))
   \<and> manual_loss_cell_loss 0 1 0 0 (1 / 10) [1] [3] 0 last_cell_state
     = manual_loss_cell_loss 0 1 0 0 (1 / 10) [1] [3] 0
         (last_cell_state\<lparr>training := (\<lambda>m. True)\<rparr>)
   \<and> (\<forall>p. agree_at p (mse_loss_cell 0 1 0 0 (1 / 10) [1] [3] n_epochs last_cell_state)
               (mse_loss_cell 0 1 0 0 (1 / 10) [1] [3] n_epochs
                  (last_cell_state\<lparr>training := (\<lambda>m. True)\<rparr>)))
   \<and> mse_loss_cell_loss 0 1 0 0 (1 / 10) [1] [3] 0 last_cell_state
     = mse_loss_cell_loss 0 1 0 0 (1 / 10) [1] [3] 0
         (last_cell_state\<lparr>training := (\<lambda>m. True)\<rparr>)"
  unfolding manual_loss_cell_loss_def mse_loss_cell_loss_def manual_loss_cell_def
    mse_loss_cell_def
proof (rule training_loops_deterministic
         [where same = "\<lambda>v1 v2. \<forall>p. agree_at p (v1 :: rat world) v2"])
  show "\<forall>p. agree_at p (fresh_parameters 0 1 0 0 last_cell_state)
          (fresh_parameters 0 1 0 0 (last_cell_state\<lparr>training := (\<lambda>m. True)\<rparr>))"
    by (simp add: agree_at_def fresh_parameters_def)
next
  fix v1 v2 :: "rat world"
  assume s: "\<forall>p. agree_at p v1 v2"
  show "t_add ref_torch (Parameter 0) (t_mul ref_torch (Parameter 1) (data_tensor [1]) v1) v1
      = t_add ref_torch (Parameter 0) (t_mul ref_torch (Parameter 1) (data_tensor [1]) v2) v2"
    using s loss_agree [of 0 v1 v2 1 "[1]"] by (simp add: ref_torch_def)
next
  fix t and v1 v2 :: "rat world"
  assume s: "\<forall>p. agree_at p v1 v2"
  have v: "vals v1 t = vals v2 t" using s by (intro vals_agree) simp
  have l: "ref_mean (ref_pow (ref_sub (data_tensor [3]) t v1) 2 v1) v1
         = ref_mean (ref_pow (ref_sub (data_tensor [3]) t v2) 2 v2) v2"
    using v by (simp add: ref_sub_def ref_pow_def ref_mean_def)
  show "t_mean ref_torch (t_pow ref_torch (t_sub ref_torch (data_tensor [3]) t v1) 2 v1) v1
      = t_mean ref_torch (t_pow ref_torch (t_sub ref_torch (data_tensor [3]) t v2) 2 v2) v2"
    using l by (simp add: ref_torch_def)
  show "fst (MSELoss (data_tensor [3]) t v1) = fst (MSELoss (data_tensor [3]) t v2)
      \<and> (\<forall>p. agree_at p (snd (MSELoss (data_tensor [3]) t v1))
                (snd (MSELoss (data_tensor [3]) t v2)))"
    using l s by (simp add: MSELoss_def)
  show "\<forall>p. agree_at p (t_backward ref_torch t v1) (t_backward ref_torch t v2)"
    using s by (simp add: ref_torch_def ref_backward_def agree_at_accumulate)
next
  fix v1 v2 :: "rat world"
  assume s: "\<forall>p. agree_at p v1 v2"
  show "\<forall>p. agree_at p (o_step (SGD [0, 1] (1 / 10)) v1) (o_step (SGD [0, 1] (1 / 10)) v2)"
    using s by (simp add: SGD_def agree_at_optimizer_step del: optimizer_step.simps)
  show "\<forall>p. agree_at p (o_zero_grad (SGD [0, 1] (1 / 10)) v1)
               (o_zero_grad (SGD [0, 1] (1 / 10)) v2)"
    using s by (simp add: SGD_def agree_at_zero_grad del: zero_grad.simps)
qed

end
